theory Spec2Isabelle
  imports Complex_Main "HOL-Library.Word"
begin

section \<open>The image editor's session: buffers, history and operators\<close>

text \<open>
  The development follows \<^verbatim>\<open>image_processor.py\<close> (class \<^verbatim>\<open>ImageProcessor\<close>) and the
  resize dialog of \<^verbatim>\<open>gui_controls.py\<close>. A numpy image of shape (H, W, 3) with dtype uint8
  is a list of H rows of W pixels, a pixel being three 8-bit samples. Methods mutate the
  object and return a bool; here each method takes the session and returns what the call
  produced (a returned bool or a raised exception) together with the session as the call
  left it. \<^verbatim>\<open>copy.deepcopy\<close> is the identity on values.
\<close>

subsection \<open>Data\<close>

type_synonym sample = "8 word"
type_synonym pixel = "sample \<times> sample \<times> sample"
type_synonym image = "pixel list list"
type_synonym gray_image = "sample list list"

datatype exn = IndexError | Cv2Error

datatype outcome = Returned bool | Raised exn

record session =
  original_image :: "image option"
  current_image :: "image option"
  image_path :: "string option"
  history :: "image option list"
  history_index :: int

text \<open>
  The numeric filters of OpenCV that the class calls are parameters of the model: file
  decoding, Gaussian smoothing, Canny edge detection, the 8-bit HSV conversions and
  resampling. \<^verbatim>\<open>cv2.resize\<close> raises \<^verbatim>\<open>cv2.error\<close> on a size it does not accept, so its
  result is a sum. So is numpy's \<^verbatim>\<open>float32\<close> arithmetic: \<open>np_float32\<close> is the rounding of
  a real number to the nearest \<^verbatim>\<open>float32\<close>, which every float operation applies to its exact
  result, and \<open>np_mean\<close> is \<^verbatim>\<open>np.mean\<close> of a sequence of \<^verbatim>\<open>float32\<close> values.
\<close>

record cv2 =
  cv_imread :: "string \<Rightarrow> image option"
  cv_GaussianBlur :: "image \<Rightarrow> int \<times> int \<Rightarrow> int \<Rightarrow> image"
  cv_Canny :: "gray_image \<Rightarrow> int \<Rightarrow> int \<Rightarrow> gray_image"
  cv_RGB2HSV :: "image \<Rightarrow> image"
  cv_HSV2RGB :: "image \<Rightarrow> image"
  cv_resize :: "image \<Rightarrow> int \<times> int \<Rightarrow> exn + image"
  np_float32 :: "real \<Rightarrow> real"
  np_mean :: "real list \<Rightarrow> real"

subsection \<open>Python lists and strings\<close>

text \<open>\<^verbatim>\<open>xs[:k]\<close>: a negative stop counts from the end.\<close>

definition py_slice_upto :: "'a list \<Rightarrow> int \<Rightarrow> 'a list" where
  "py_slice_upto xs k =
     (if 0 \<le> k then take (nat k) xs else take (nat (int (length xs) + k)) xs)"

text \<open>\<^verbatim>\<open>xs[i]\<close>: a negative index counts from the end, an index out of range raises.\<close>

definition py_index :: "'a list \<Rightarrow> int \<Rightarrow> exn + 'a" where
  "py_index xs i =
     (if 0 \<le> i \<and> i < int (length xs) then Inr (xs ! nat i)
      else if i < 0 \<and> - int (length xs) \<le> i then Inr (xs ! nat (int (length xs) + i))
      else Inl IndexError)"

text \<open>
  \<^verbatim>\<open>str.lower()\<close> on the letters A to Z; every other character of the 8-bit character
  type is left as it is.
\<close>

definition lower_char :: "char \<Rightarrow> char" where
  "lower_char c =
     (let n = (of_char c :: nat) in if 65 \<le> n \<and> n \<le> 90 then char_of (n + 32) else c)"

definition lower :: "string \<Rightarrow> string" where
  "lower s = map lower_char s"

subsection \<open>Exact pixel operators of the library\<close>

text \<open>
  Modelled from the spec: \<^verbatim>\<open>cv2.flip(src, flipCode)\<close> is library code, absent from the
  repository. The specification says that a flip "mirrors pixel rows or columns;
  dimensions unchanged"; the model follows the library's flip codes: 0 flips around the
  x-axis (the order of the rows is reversed), a positive code around the y-axis (each row
  is reversed), a negative code around both.
\<close>

definition cv2_flip :: "'a list list \<Rightarrow> int \<Rightarrow> 'a list list" where
  "cv2_flip src flipCode =
     (if flipCode = 0 then rev src
      else if 0 < flipCode then map rev src
      else rev (map rev src))"

datatype rotate_code = ROTATE_90_CLOCKWISE | ROTATE_180 | ROTATE_90_COUNTERCLOCKWISE

text \<open>
  Modelled from the spec: \<^verbatim>\<open>cv2.rotate(src, rotateCode)\<close> is library code, absent from
  the repository. The specification says that "90/270 swap width and height; 180 keeps
  dimensions"; the model is the library's: a transposition followed by a flip (code 1 for
  clockwise, code 0 for counter-clockwise), or a flip around both axes for 180 degrees.
\<close>

fun cv2_rotate :: "'a list list \<Rightarrow> rotate_code \<Rightarrow> 'a list list" where
  "cv2_rotate src ROTATE_90_CLOCKWISE = cv2_flip (transpose src) 1"
| "cv2_rotate src ROTATE_180 = cv2_flip src (-1)"
| "cv2_rotate src ROTATE_90_COUNTERCLOCKWISE = cv2_flip (transpose src) 0"

text \<open>\<^verbatim>\<open>cv2.COLOR_BGR2RGB\<close> swaps the first and the third channel.\<close>

definition BGR2RGB :: "image \<Rightarrow> image" where
  "BGR2RGB img = map (map (\<lambda>(b, g, r). (r, g, b))) img"

text \<open>
  Modelled from the spec: \<^verbatim>\<open>cv2.cvtColor(_, cv2.COLOR_RGB2GRAY)\<close> is library code, absent
  from the repository. The specification asks for "a single luminance value derived from
  the input RGB (e.g. a standard weighted or averaged combination)"; the model is the
  library's 8-bit conversion, the weights 0.299, 0.587 and 0.114 in 15-bit fixed point
  (9798, 19235 and 3735, which add up to 32768), rounded to nearest.
\<close>

definition RGB2GRAY_px :: "pixel \<Rightarrow> sample" where
  "RGB2GRAY_px p =
     (case p of (r, g, b) \<Rightarrow>
        of_nat ((9798 * unat r + 19235 * unat g + 3735 * unat b + 16384) div 32768))"

definition RGB2GRAY :: "image \<Rightarrow> gray_image" where
  "RGB2GRAY img = map (map RGB2GRAY_px) img"

text \<open>
  Modelled from the spec: \<^verbatim>\<open>cv2.cvtColor(_, cv2.COLOR_GRAY2RGB)\<close>, library code as well;
  "each output pixel's three channels are set to a single luminance value".
\<close>

definition GRAY2RGB :: "gray_image \<Rightarrow> image" where
  "GRAY2RGB g = map (map (\<lambda>v. (v, v, v))) g"

subsection \<open>numpy arithmetic of the adjustments\<close>

text \<open>
  The code computes brightness and contrast on \<^verbatim>\<open>float32\<close> arrays. A \<^verbatim>\<open>float32\<close> value is
  a real number; an operation on such values gives the rounding of the exact result, and
  the Python float \<^verbatim>\<open>factor\<close> is rounded to \<^verbatim>\<open>float32\<close> when it meets the array.
  \<^verbatim>\<open>astype(np.float32)\<close> of a sample is exact, \<^verbatim>\<open>np.clip\<close> to [0, 255] is exact, and
  \<^verbatim>\<open>astype(np.uint8)\<close> of a clipped value drops the fraction.
\<close>

definition np_clip :: "real \<Rightarrow> real" where
  "np_clip x = min 255 (max 0 x)"

definition as_float :: "sample \<Rightarrow> real" where
  "as_float v = real (unat v)"

definition as_uint8 :: "real \<Rightarrow> sample" where
  "as_uint8 x = of_nat (nat \<lfloor>x\<rfloor>)"

text \<open>\<^verbatim>\<open>hsv[:, :, 2] * factor\<close>, clipped and converted back, the other channels as they
  are.\<close>

definition scale_value :: "cv2 \<Rightarrow> real \<Rightarrow> image \<Rightarrow> image" where
  "scale_value cv factor hsv =
     map (map (\<lambda>(h, s, v).
       (h, s, as_uint8 (np_clip (np_float32 cv (as_float v * np_float32 cv factor)))))) hsv"

text \<open>\<^verbatim>\<open>np.mean(img, axis=(0, 1))\<close>: the mean of each channel over all pixels, row by row.\<close>

definition channel_mean :: "cv2 \<Rightarrow> (pixel \<Rightarrow> sample) \<Rightarrow> image \<Rightarrow> real" where
  "channel_mean cv ch img = np_mean cv (map (\<lambda>p. as_float (ch p)) (concat img))"

text \<open>\<^verbatim>\<open>(img - mean) * factor + mean\<close>, one rounding for each of the three operations.\<close>

definition stretch :: "cv2 \<Rightarrow> real \<Rightarrow> real \<Rightarrow> sample \<Rightarrow> sample" where
  "stretch cv factor mean v =
     as_uint8 (np_clip (np_float32 cv
       (np_float32 cv (np_float32 cv (as_float v - mean) * np_float32 cv factor) + mean)))"

definition contrast_px :: "cv2 \<Rightarrow> real \<Rightarrow> image \<Rightarrow> image" where
  "contrast_px cv factor img =
     (let mr = channel_mean cv (\<lambda>(r, g, b). r) img;
          mg = channel_mean cv (\<lambda>(r, g, b). g) img;
          mb = channel_mean cv (\<lambda>(r, g, b). b) img
      in map (map (\<lambda>(r, g, b).
            (stretch cv factor mr r, stretch cv factor mg g, stretch cv factor mb b))) img)"

subsection \<open>The session: loading and history\<close>

definition init :: session where
  "init = \<lparr>original_image = None, current_image = None, image_path = None,
           history = [], history_index = -1\<rparr>"

definition load_image :: "cv2 \<Rightarrow> string \<Rightarrow> session \<Rightarrow> outcome \<times> session" where
  "load_image cv path s =
     (case cv_imread cv path of
        None \<Rightarrow> (Returned False, s)
      | Some bgr \<Rightarrow>
          (Returned True,
           s\<lparr>original_image := Some (BGR2RGB bgr),
             current_image := Some (BGR2RGB bgr),
             image_path := Some path,
             history := [],
             history_index := -1\<rparr>))"

definition save_to_history :: "session \<Rightarrow> session" where
  "save_to_history s =
     s\<lparr>history := py_slice_upto (history s) (history_index s + 1) @ [current_image s],
       history_index := history_index s + 1\<rparr>"

text \<open>In \<^verbatim>\<open>undo\<close> and \<^verbatim>\<open>redo\<close> the index is moved before the list is read, so an
  \<^verbatim>\<open>IndexError\<close> would leave the moved index behind.\<close>

definition undo :: "session \<Rightarrow> outcome \<times> session" where
  "undo s =
     (if 0 < history_index s then
        (let s1 = s\<lparr>history_index := history_index s - 1\<rparr>
         in case py_index (history s1) (history_index s1) of
              Inl e \<Rightarrow> (Raised e, s1)
            | Inr snapshot \<Rightarrow> (Returned True, s1\<lparr>current_image := snapshot\<rparr>))
      else (Returned False, s))"

definition redo :: "session \<Rightarrow> outcome \<times> session" where
  "redo s =
     (if history_index s < int (length (history s)) - 1 then
        (let s1 = s\<lparr>history_index := history_index s + 1\<rparr>
         in case py_index (history s1) (history_index s1) of
              Inl e \<Rightarrow> (Raised e, s1)
            | Inr snapshot \<Rightarrow> (Returned True, s1\<lparr>current_image := snapshot\<rparr>))
      else (Returned False, s))"

definition reset_image :: "session \<Rightarrow> outcome \<times> session" where
  "reset_image s =
     (case original_image s of
        None \<Rightarrow> (Returned False, s)
      | Some img \<Rightarrow>
          (Returned True, s\<lparr>current_image := Some img, history := [], history_index := -1\<rparr>))"

subsection \<open>The operators\<close>

definition convert_grayscale :: "session \<Rightarrow> outcome \<times> session" where
  "convert_grayscale s =
     (case current_image s of
        None \<Rightarrow> (Returned False, s)
      | Some img \<Rightarrow>
          (let s1 = save_to_history s; gray = RGB2GRAY img
           in (Returned True, s1\<lparr>current_image := Some (GRAY2RGB gray)\<rparr>)))"

text \<open>Line 98 of the class: \<^verbatim>\<open>max(1, intensity if intensity % 2 == 1 else intensity + 1)\<close>.
  Python's \<^verbatim>\<open>%\<close> with a positive modulus is the floor modulus, as \<open>mod\<close> on \<open>int\<close>.\<close>

definition blur_ksize :: "int \<Rightarrow> int" where
  "blur_ksize intensity = max 1 (if intensity mod 2 = 1 then intensity else intensity + 1)"

definition apply_blur :: "cv2 \<Rightarrow> int \<Rightarrow> session \<Rightarrow> outcome \<times> session" where
  "apply_blur cv intensity s =
     (case current_image s of
        None \<Rightarrow> (Returned False, s)
      | Some img \<Rightarrow>
          (let s1 = save_to_history s; k = blur_ksize intensity
           in (Returned True, s1\<lparr>current_image := Some (cv_GaussianBlur cv img (k, k) 0)\<rparr>)))"

definition detect_edges :: "cv2 \<Rightarrow> int \<Rightarrow> int \<Rightarrow> session \<Rightarrow> outcome \<times> session" where
  "detect_edges cv threshold1 threshold2 s =
     (case current_image s of
        None \<Rightarrow> (Returned False, s)
      | Some img \<Rightarrow>
          (let s1 = save_to_history s;
               gray = RGB2GRAY img;
               edges = cv_Canny cv gray threshold1 threshold2
           in (Returned True, s1\<lparr>current_image := Some (GRAY2RGB edges)\<rparr>)))"

definition adjust_brightness :: "cv2 \<Rightarrow> real \<Rightarrow> session \<Rightarrow> outcome \<times> session" where
  "adjust_brightness cv factor s =
     (case current_image s of
        None \<Rightarrow> (Returned False, s)
      | Some img \<Rightarrow>
          (let s1 = save_to_history s;
               hsv = scale_value cv factor (cv_RGB2HSV cv img)
           in (Returned True, s1\<lparr>current_image := Some (cv_HSV2RGB cv hsv)\<rparr>)))"

definition adjust_contrast :: "cv2 \<Rightarrow> real \<Rightarrow> session \<Rightarrow> outcome \<times> session" where
  "adjust_contrast cv factor s =
     (case current_image s of
        None \<Rightarrow> (Returned False, s)
      | Some img \<Rightarrow>
          (let s1 = save_to_history s
           in (Returned True, s1\<lparr>current_image := Some (contrast_px cv factor img)\<rparr>)))"

definition rotate_image :: "int \<Rightarrow> session \<Rightarrow> outcome \<times> session" where
  "rotate_image angle s =
     (case current_image s of
        None \<Rightarrow> (Returned False, s)
      | Some img \<Rightarrow>
          (let s1 = save_to_history s
           in if angle = 90 then
                (Returned True,
                 s1\<lparr>current_image := Some (cv2_rotate img ROTATE_90_COUNTERCLOCKWISE)\<rparr>)
              else if angle = 180 then
                (Returned True, s1\<lparr>current_image := Some (cv2_rotate img ROTATE_180)\<rparr>)
              else if angle = 270 then
                (Returned True, s1\<lparr>current_image := Some (cv2_rotate img ROTATE_90_CLOCKWISE)\<rparr>)
              else (Returned False, s1)))"

definition flip_image :: "string \<Rightarrow> session \<Rightarrow> outcome \<times> session" where
  "flip_image direction s =
     (case current_image s of
        None \<Rightarrow> (Returned False, s)
      | Some img \<Rightarrow>
          (let s1 = save_to_history s
           in if lower direction = ''horizontal'' then
                (Returned True, s1\<lparr>current_image := Some (cv2_flip img 1)\<rparr>)
              else if lower direction = ''vertical'' then
                (Returned True, s1\<lparr>current_image := Some (cv2_flip img 0)\<rparr>)
              else (Returned False, s1)))"

definition resize_image :: "cv2 \<Rightarrow> int \<Rightarrow> int \<Rightarrow> session \<Rightarrow> outcome \<times> session" where
  "resize_image cv width height s =
     (case current_image s of
        None \<Rightarrow> (Returned False, s)
      | Some img \<Rightarrow>
          (let s1 = save_to_history s
           in case cv_resize cv img (width, height) of
                Inl e \<Rightarrow> (Raised e, s1)
              | Inr resized \<Rightarrow> (Returned True, s1\<lparr>current_image := Some resized\<rparr>)))"

text \<open>
  The resize dialog (\<^verbatim>\<open>apply_resize\<close> in \<^verbatim>\<open>gui_controls.py\<close>), from the two parsed
  integers on: what the dialog shows, and the session afterwards.
\<close>

datatype dialog_message = Resized | Failed_to_resize | Invalid_input | Error_resizing

definition apply_resize :: "cv2 \<Rightarrow> int \<Rightarrow> int \<Rightarrow> session \<Rightarrow> dialog_message \<times> session" where
  "apply_resize cv width height s =
     (if 0 < width \<and> 0 < height then
        (case resize_image cv width height s of
           (Returned True, s') \<Rightarrow> (Resized, s')
         | (Returned False, s') \<Rightarrow> (Failed_to_resize, s')
         | (Raised e, s') \<Rightarrow> (Error_resizing, s'))
      else (Invalid_input, s))"

subsection \<open>Edit sequences\<close>

datatype edit =
    Grayscale
  | Blur int
  | Edges int int
  | Brightness real
  | Contrast real
  | Rotate int
  | Flip string
  | Resize int int

fun apply_edit :: "cv2 \<Rightarrow> edit \<Rightarrow> session \<Rightarrow> outcome \<times> session" where
  "apply_edit cv Grayscale s = convert_grayscale s"
| "apply_edit cv (Blur intensity) s = apply_blur cv intensity s"
| "apply_edit cv (Edges t1 t2) s = detect_edges cv t1 t2 s"
| "apply_edit cv (Brightness factor) s = adjust_brightness cv factor s"
| "apply_edit cv (Contrast factor) s = adjust_contrast cv factor s"
| "apply_edit cv (Rotate angle) s = rotate_image angle s"
| "apply_edit cv (Flip direction) s = flip_image direction s"
| "apply_edit cv (Resize width height) s = resize_image cv width height s"

text \<open>A run of edits each of which returns \<^verbatim>\<open>True\<close>; \<open>None\<close> as soon as one does not.\<close>

fun apply_edits :: "cv2 \<Rightarrow> edit list \<Rightarrow> session \<Rightarrow> session option" where
  "apply_edits cv [] s = Some s"
| "apply_edits cv (e # es) s =
     (case apply_edit cv e s of
        (Returned True, s') \<Rightarrow> apply_edits cv es s'
      | _ \<Rightarrow> None)"

text \<open>\<open>n\<close> calls of the same method in a row, whatever each one returns.\<close>

fun repeated :: "nat \<Rightarrow> (session \<Rightarrow> outcome \<times> session) \<Rightarrow> session \<Rightarrow> session" where
  "repeated 0 f s = s"
| "repeated (Suc n) f s = repeated n f (snd (f s))"

text \<open>The state a successful \<^verbatim>\<open>load_image\<close> leaves: an image, and no history.\<close>

definition freshly_loaded :: "session \<Rightarrow> bool" where
  "freshly_loaded s \<longleftrightarrow>
     current_image s \<noteq> None \<and> original_image s = current_image s
     \<and> history s = [] \<and> history_index s = -1"

text \<open>The cursor of the history is in [-1, length - 1].\<close>

definition history_ok :: "session \<Rightarrow> bool" where
  "history_ok s \<longleftrightarrow> -1 \<le> history_index s \<and> history_index s < int (length (history s))"

text \<open>A numpy image is rectangular, and a decoded one has at least one row and column.\<close>

definition valid_image :: "'a list list \<Rightarrow> bool" where
  "valid_image img \<longleftrightarrow>
     img \<noteq> [] \<and> hd img \<noteq> [] \<and> list_all (\<lambda>row. length row = length (hd img)) img"

text \<open>A library whose filters return their input, whose resize accepts positive sizes
  only and whose float arithmetic does not round, for running sessions on concrete
  inputs.\<close>

definition plain_cv2 :: cv2 where
  "plain_cv2 =
     \<lparr>cv_imread = (\<lambda>path. None),
      cv_GaussianBlur = (\<lambda>img ksize sigma. img),
      cv_Canny = (\<lambda>g t1 t2. g),
      cv_RGB2HSV = (\<lambda>img. img),
      cv_HSV2RGB = (\<lambda>img. img),
      cv_resize = (\<lambda>img (w, h). if 0 < w \<and> 0 < h then Inr img else Inl Cv2Error),
      np_float32 = (\<lambda>x. x),
      np_mean = (\<lambda>xs. sum_list xs / real (length xs))\<rparr>"

text \<open>The shape of an image: \<open>m\<close> rows of \<open>n\<close> pixels each, neither of them zero.\<close>

definition rect :: "nat \<Rightarrow> nat \<Rightarrow> 'a list list \<Rightarrow> bool" where
  "rect m n img \<longleftrightarrow> 0 < m \<and> 0 < n \<and> length img = m \<and> list_all (\<lambda>row. length row = n) img"

text \<open>A session right after loading an image of one row and two pixels.\<close>

definition two_pixels :: session where
  "two_pixels =
     \<lparr>original_image = Some [[(1, 2, 3), (4, 5, 6)]],
      current_image = Some [[(1, 2, 3), (4, 5, 6)]],
      image_path = Some ''a.png'',
      history = [],
      history_index = -1\<rparr>"

section \<open>Python strings\<close>

lemma lower_horizontal: "lower ''horizontal'' = ''horizontal''"
  by code_simp

lemma lower_vertical: "lower ''vertical'' = ''vertical''"
  by code_simp

lemma lower_HORIZONTAL: "lower ''HORIZONTAL'' = ''horizontal''"
  by code_simp

lemma lower_Vertical: "lower ''Vertical'' = ''vertical''"
  by code_simp

lemma lower_diagonal: "lower ''diagonal'' = ''diagonal''"
  by code_simp

section \<open>The history\<close>

lemma freshly_loaded_two_pixels: "freshly_loaded two_pixels"
  by (simp add: freshly_loaded_def two_pixels_def)

lemma load_image_fresh:
  "load_image cv path s = (Returned True, s') \<Longrightarrow> freshly_loaded s'"
  by (auto simp add: load_image_def freshly_loaded_def split: option.splits)

lemma freshly_loaded_ok: "freshly_loaded s \<Longrightarrow> history_ok s"
  by (simp add: freshly_loaded_def history_ok_def)

lemma history_ok_init: "history_ok init"
  by (simp add: history_ok_def init_def)

lemma reset_image_fresh:
  "reset_image s = (Returned True, s') \<Longrightarrow> freshly_loaded s'"
  by (auto simp add: reset_image_def freshly_loaded_def split: option.splits)

lemma history_ok_save: "history_ok s \<Longrightarrow> history_ok (save_to_history s)"
  by (auto simp add: save_to_history_def history_ok_def py_slice_upto_def)

lemma save_to_history_tip:
  "history_ok s \<Longrightarrow>
   history_index (save_to_history s) = int (length (history (save_to_history s))) - 1
   \<and> length (history (save_to_history s)) = nat (history_index s + 2)"
  by (auto simp add: save_to_history_def history_ok_def py_slice_upto_def)

lemma undo_fails: "history_index s \<le> 0 \<Longrightarrow> undo s = (Returned False, s)"
  by (simp add: undo_def)

lemma undo_succeeds:
  "0 < history_index s \<Longrightarrow> history_index s \<le> int (length (history s)) \<Longrightarrow>
   undo s = (Returned True,
     s\<lparr>history_index := history_index s - 1,
       current_image := history s ! nat (history_index s - 1)\<rparr>)"
  by (simp add: undo_def py_index_def Let_def)

lemma redo_at_tip:
  "history_index s = int (length (history s)) - 1 \<Longrightarrow> redo s = (Returned False, s)"
  by (simp add: redo_def)

lemma redo_succeeds:
  "- 1 \<le> history_index s \<Longrightarrow> history_index s < int (length (history s)) - 1 \<Longrightarrow>
   redo s = (Returned True,
     s\<lparr>history_index := history_index s + 1,
       current_image := history s ! nat (history_index s + 1)\<rparr>)"
  by (simp add: redo_def py_index_def Let_def)

lemma history_ok_undo: "history_ok s \<Longrightarrow> history_ok (snd (undo s))"
proof (cases "0 < history_index s")
  case True
  assume "history_ok s"
  with True show ?thesis by (simp add: undo_succeeds history_ok_def)
next
  case False
  assume "history_ok s"
  with False show ?thesis by (simp add: undo_fails)
qed

lemma history_ok_redo: "history_ok s \<Longrightarrow> history_ok (snd (redo s))"
proof (cases "history_index s < int (length (history s)) - 1")
  case True
  assume "history_ok s"
  with True show ?thesis by (simp add: redo_succeeds history_ok_def)
next
  case False
  then show "history_ok s \<Longrightarrow> history_ok (snd (redo s))" by (simp add: redo_def)
qed

text \<open>Every operator on a loaded image leaves the history that \<^verbatim>\<open>_save_to_history\<close>
  built, whatever it returns; without an image it leaves the session alone.\<close>

lemma apply_edit_history:
  "snd (apply_edit cv e s) = s \<or>
   (\<exists>c. snd (apply_edit cv e s) = (save_to_history s)\<lparr>current_image := c\<rparr>)"
proof (cases "current_image s")
  case None
  then show ?thesis
    by (cases e)
      (simp_all add: convert_grayscale_def apply_blur_def detect_edges_def
        adjust_brightness_def adjust_contrast_def rotate_image_def flip_image_def
        resize_image_def)
next
  case (Some img)
  have same: "save_to_history s = (save_to_history s)\<lparr>current_image := current_image s\<rparr>"
    by (simp add: save_to_history_def)
  have "\<exists>c. snd (apply_edit cv e s) = (save_to_history s)\<lparr>current_image := c\<rparr>"
  proof (cases e)
    case (Rotate angle)
    with Some same show ?thesis
      by (auto simp add: rotate_image_def Let_def)
  next
    case (Flip direction)
    with Some same show ?thesis
      by (auto simp add: flip_image_def Let_def)
  next
    case (Resize width height)
    with Some same show ?thesis
      by (cases "cv_resize cv img (width, height)") (auto simp add: resize_image_def Let_def)
  qed (use Some in \<open>auto simp add: convert_grayscale_def apply_blur_def detect_edges_def
        adjust_brightness_def adjust_contrast_def Let_def\<close>)
  then show ?thesis ..
qed

lemma history_ok_apply_edit: "history_ok s \<Longrightarrow> history_ok (snd (apply_edit cv e s))"
proof -
  assume ok: "history_ok s"
  from apply_edit_history [of cv e s] show ?thesis
  proof
    assume "snd (apply_edit cv e s) = s"
    with ok show ?thesis by simp
  next
    assume "\<exists>c. snd (apply_edit cv e s) = (save_to_history s)\<lparr>current_image := c\<rparr>"
    then obtain c where "snd (apply_edit cv e s) = (save_to_history s)\<lparr>current_image := c\<rparr>" ..
    with history_ok_save [OF ok] show ?thesis by (simp add: history_ok_def)
  qed
qed

lemma apply_edit_success:
  "apply_edit cv e s = (Returned True, s') \<Longrightarrow>
   \<exists>c. s' = (save_to_history s)\<lparr>current_image := c\<rparr>"
  by (cases e)
    (auto simp add: convert_grayscale_def apply_blur_def detect_edges_def adjust_brightness_def
      adjust_contrast_def rotate_image_def flip_image_def resize_image_def Let_def
      split: option.splits if_splits sum.splits)

lemma apply_edit_tip:
  assumes "apply_edit cv e s = (Returned True, s')" and "history_ok s"
  shows "history_index s' = int (length (history s')) - 1
       \<and> length (history s') = nat (history_index s + 2)"
proof -
  from assms(1) obtain c where "s' = (save_to_history s)\<lparr>current_image := c\<rparr>"
    using apply_edit_success by blast
  with save_to_history_tip [OF assms(2)] show ?thesis by simp
qed

lemma apply_edits_tip:
  "apply_edits cv es s = Some s' \<Longrightarrow> history_index s = int (length (history s)) - 1 \<Longrightarrow>
   history_index s' = int (length (history s')) - 1
   \<and> length (history s') = length (history s) + length es"
proof (induction es arbitrary: s)
  case Nil
  then show ?case by simp
next
  case (Cons e es)
  from Cons.prems(1) obtain s1 where e: "apply_edit cv e s = (Returned True, s1)"
    and rest: "apply_edits cv es s1 = Some s'"
    by (auto split: prod.splits outcome.splits bool.splits)
  from Cons.prems(2) have ok: "history_ok s" by (simp add: history_ok_def)
  from apply_edit_tip [OF e ok] Cons.prems(2)
  have tip1: "history_index s1 = int (length (history s1)) - 1"
    and len1: "length (history s1) = length (history s) + 1"
    by auto
  from Cons.IH [OF rest tip1] len1 show ?case by simp
qed

section \<open>Claims about single operations\<close>

text \<open>
  C5. In every history state whose cursor is in range, \<^verbatim>\<open>undo\<close> returns \<^verbatim>\<open>True\<close> exactly
  when the cursor is above 0; it then moves the cursor down by one and makes the snapshot
  at the new cursor the current image, leaving the history list as it was. With the cursor
  at 0 or below it returns \<^verbatim>\<open>False\<close>, raises nothing and leaves the whole session
  unchanged.
\<close>

theorem undo_spec:
  assumes "history_ok s"
  shows "(fst (undo s) = Returned True \<longleftrightarrow> 0 < history_index s)
       \<and> (0 < history_index s \<longrightarrow>
            undo s = (Returned True,
              s\<lparr>history_index := history_index s - 1,
                current_image := history s ! nat (history_index s - 1)\<rparr>))
       \<and> (history_index s \<le> 0 \<longrightarrow> undo s = (Returned False, s))"
proof -
  from assms have le: "history_index s \<le> int (length (history s))"
    by (simp add: history_ok_def)
  show ?thesis
  proof (cases "0 < history_index s")
    case True
    with le show ?thesis by (simp add: undo_succeeds)
  next
    case False
    then show ?thesis by (simp add: undo_fails)
  qed
qed

theorem undo_spec_witness:
  "history_ok (two_pixels\<lparr>history := [Some [[(7, 7, 7)]], Some [[(8, 8, 8)]]], history_index := 1\<rparr>)
   \<and> undo (two_pixels\<lparr>history := [Some [[(7, 7, 7)]], Some [[(8, 8, 8)]]], history_index := 1\<rparr>)
     = (Returned True,
        two_pixels\<lparr>history := [Some [[(7, 7, 7)]], Some [[(8, 8, 8)]]], history_index := 0,
          current_image := Some [[(7, 7, 7)]]\<rparr>)
   \<and> history_ok two_pixels
   \<and> history_index two_pixels \<le> 0
   \<and> undo two_pixels = (Returned False, two_pixels)"
proof -
  let ?s = "two_pixels\<lparr>history := [Some [[(7, 7, 7)]], Some [[(8, 8, 8)]]], history_index := 1\<rparr>"
  have ok1: "history_ok ?s" by (simp add: history_ok_def)
  have ok2: "history_ok two_pixels" by (simp add: history_ok_def two_pixels_def)
  have le: "history_index two_pixels \<le> 0" by (simp add: two_pixels_def)
  from undo_spec [OF ok1] undo_spec [OF ok2] ok1 ok2 le show ?thesis by simp
qed

text \<open>
  C8. For an intensity from 1 to 31, the blur operator passes to the Gaussian filter a
  kernel whose width and height are the same odd number, at least 1: the intensity itself
  when it is odd, the intensity plus one when it is even.
\<close>

theorem blur_kernel:
  assumes "1 \<le> intensity" and "intensity \<le> 31" and "current_image s = Some img"
  shows "odd (blur_ksize intensity) \<and> 1 \<le> blur_ksize intensity
       \<and> blur_ksize intensity = (if even intensity then intensity + 1 else intensity)
       \<and> apply_blur cv intensity s =
           (Returned True,
            (save_to_history s)\<lparr>current_image :=
               Some (cv_GaussianBlur cv img (blur_ksize intensity, blur_ksize intensity) 0)\<rparr>)"
proof -
  from assms(1,2) have "odd (blur_ksize intensity) \<and> 1 \<le> blur_ksize intensity
       \<and> blur_ksize intensity = (if even intensity then intensity + 1 else intensity)"
    unfolding blur_ksize_def by presburger
  moreover from assms(3) have "apply_blur cv intensity s =
           (Returned True,
            (save_to_history s)\<lparr>current_image :=
               Some (cv_GaussianBlur cv img (blur_ksize intensity, blur_ksize intensity) 0)\<rparr>)"
    by (simp add: apply_blur_def Let_def)
  ultimately show ?thesis by blast
qed

theorem blur_kernel_witness:
  "(1::int) \<le> 4 \<and> (4::int) \<le> 31 \<and> current_image two_pixels = Some [[(1, 2, 3), (4, 5, 6)]]
   \<and> blur_ksize 4 = 5 \<and> blur_ksize 7 = 7
   \<and> apply_blur plain_cv2 4 two_pixels =
       (Returned True,
        (save_to_history two_pixels)\<lparr>current_image :=
           Some (cv_GaussianBlur plain_cv2 [[(1, 2, 3), (4, 5, 6)]] (5, 5) 0)\<rparr>)"
proof -
  have c: "current_image two_pixels = Some [[(1, 2, 3), (4, 5, 6)]]"
    by (simp add: two_pixels_def)
  have "(1::int) \<le> 4" and "(4::int) \<le> 31" and "(1::int) \<le> 7" and "(7::int) \<le> 31"
    by simp_all
  from blur_kernel [OF this(1,2) c, of plain_cv2] blur_kernel [OF this(3,4) c, of plain_cv2] c
  show ?thesis by simp
qed

text \<open>
  C10. The direction of a flip is matched without regard to case: on a loaded image, for
  every string whose lowercase form is \<^verbatim>\<open>horizontal\<close> or \<^verbatim>\<open>vertical\<close>, \<^verbatim>\<open>flip_image\<close> returns
  \<^verbatim>\<open>True\<close> and leaves the session that the call with the lowercase string leaves.
\<close>

theorem flip_case_insensitive:
  assumes "current_image s = Some img"
    and "lower direction = ''horizontal'' \<or> lower direction = ''vertical''"
  shows "fst (flip_image direction s) = Returned True
       \<and> flip_image direction s = flip_image (lower direction) s"
  using assms(2)
proof
  assume "lower direction = ''horizontal''"
  with assms(1) show ?thesis by (simp add: flip_image_def Let_def lower_horizontal)
next
  assume "lower direction = ''vertical''"
  with assms(1) show ?thesis
    by (simp add: flip_image_def Let_def lower_vertical lower_horizontal)
qed

theorem flip_case_insensitive_witness:
  "current_image two_pixels = Some [[(1, 2, 3), (4, 5, 6)]]
   \<and> lower ''HORIZONTAL'' = ''horizontal'' \<and> lower ''Vertical'' = ''vertical''
   \<and> flip_image ''HORIZONTAL'' two_pixels = flip_image ''horizontal'' two_pixels
   \<and> flip_image ''Vertical'' two_pixels = flip_image ''vertical'' two_pixels
   \<and> fst (flip_image ''HORIZONTAL'' two_pixels) = Returned True
   \<and> current_image (snd (flip_image ''HORIZONTAL'' two_pixels)) = Some [[(4, 5, 6), (1, 2, 3)]]"
proof -
  have c: "current_image two_pixels = Some [[(1, 2, 3), (4, 5, 6)]]"
    by (simp add: two_pixels_def)
  have h: "lower ''HORIZONTAL'' = ''horizontal'' \<or> lower ''HORIZONTAL'' = ''vertical''"
    by (simp add: lower_HORIZONTAL)
  have v: "lower ''Vertical'' = ''horizontal'' \<or> lower ''Vertical'' = ''vertical''"
    by (simp add: lower_Vertical)
  have cur: "current_image (snd (flip_image ''horizontal'' two_pixels)) = Some [[(4, 5, 6), (1, 2, 3)]]"
    by (simp add: flip_image_def lower_horizontal two_pixels_def save_to_history_def cv2_flip_def)
  note th = flip_case_insensitive [OF c h, unfolded lower_HORIZONTAL]
  note tv = flip_case_insensitive [OF c v, unfolded lower_Vertical]
  note h1 = th [THEN conjunct1] and h2 = th [THEN conjunct2] and v2 = tv [THEN conjunct2]
  from cur have cur':
    "current_image (snd (flip_image ''HORIZONTAL'' two_pixels)) = Some [[(4, 5, 6), (1, 2, 3)]]"
    by (simp only: h2)
  from c lower_HORIZONTAL lower_Vertical h2 v2 h1 cur' show ?thesis by (intro conjI)
qed

section \<open>Claims about sequences of operations\<close>

text \<open>
  C4. After a fresh load and at least two successful edits, \<^verbatim>\<open>undo\<close> succeeds; after any
  new successful edit made from there, \<^verbatim>\<open>redo\<close> returns \<^verbatim>\<open>False\<close> and leaves the session
  as it is: the states that were undone can no longer be reached.
\<close>

theorem branch_discard:
  assumes fresh: "freshly_loaded s0"
    and edits: "apply_edits cv es s0 = Some s1"
    and n: "2 \<le> length es"
  shows "fst (undo s1) = Returned True
       \<and> (\<forall>e s3. apply_edit cv e (snd (undo s1)) = (Returned True, s3) \<longrightarrow>
            redo s3 = (Returned False, s3))"
proof -
  from fresh have tip0: "history_index s0 = int (length (history s0)) - 1"
    and len0: "length (history s0) = 0"
    by (simp_all add: freshly_loaded_def)
  from apply_edits_tip [OF edits tip0] len0
  have tip1: "history_index s1 = int (length (history s1)) - 1"
    and len1: "length (history s1) = length es"
    by simp_all
  from tip1 len1 n have pos: "0 < history_index s1"
    and le: "history_index s1 \<le> int (length (history s1))"
    by simp_all
  note u = undo_succeeds [OF pos le]
  have ok2: "history_ok (snd (undo s1))"
    using pos le tip1 by (simp add: u history_ok_def)
  have "redo s3 = (Returned False, s3)"
    if "apply_edit cv e (snd (undo s1)) = (Returned True, s3)" for e s3
    using apply_edit_tip [OF that ok2] by (simp add: redo_at_tip)
  with u show ?thesis by simp
qed

theorem branch_discard_witness:
  "freshly_loaded two_pixels
   \<and> apply_edits plain_cv2 [Flip ''horizontal'', Rotate 90] two_pixels \<noteq> None
   \<and> 2 \<le> length [Flip ''horizontal'', Rotate 90]
   \<and> fst (undo (the (apply_edits plain_cv2 [Flip ''horizontal'', Rotate 90] two_pixels)))
       = Returned True
   \<and> fst (apply_edit plain_cv2 (Flip ''vertical'')
        (snd (undo (the (apply_edits plain_cv2 [Flip ''horizontal'', Rotate 90] two_pixels)))))
       = Returned True
   \<and> fst (redo (snd (apply_edit plain_cv2 (Flip ''vertical'')
        (snd (undo (the (apply_edits plain_cv2 [Flip ''horizontal'', Rotate 90] two_pixels)))))))
       = Returned False"
proof -
  let ?es = "[Flip ''horizontal'', Rotate 90]"
  let ?s1 = "the (apply_edits plain_cv2 ?es two_pixels)"
  let ?s3 = "snd (apply_edit plain_cv2 (Flip ''vertical'') (snd (undo ?s1)))"
  note f = freshly_loaded_two_pixels
  have e: "apply_edits plain_cv2 ?es two_pixels = Some ?s1"
    by (simp add: flip_image_def rotate_image_def two_pixels_def lower_horizontal
        save_to_history_def)
  have n: "2 \<le> length ?es" by simp
  have a: "apply_edit plain_cv2 (Flip ''vertical'') (snd (undo ?s1)) = (Returned True, ?s3)"
    by (simp add: flip_image_def rotate_image_def two_pixels_def lower_horizontal lower_vertical
        save_to_history_def undo_def py_slice_upto_def py_index_def)
  from branch_discard [OF f e n]
  have u: "fst (undo ?s1) = Returned True"
    and r: "apply_edit plain_cv2 (Flip ''vertical'') (snd (undo ?s1)) = (Returned True, ?s3)
            \<longrightarrow> redo ?s3 = (Returned False, ?s3)"
    by blast+
  from r a have "redo ?s3 = (Returned False, ?s3)" by (rule mp)
  then have r': "fst (redo ?s3) = Returned False" by (metis fst_conv)
  from a have a': "fst (apply_edit plain_cv2 (Flip ''vertical'') (snd (undo ?s1))) = Returned True"
    by (metis fst_conv)
  from e have e': "apply_edits plain_cv2 ?es two_pixels \<noteq> None" by (metis option.distinct(1))
  from f e' n u a' r' show ?thesis by (intro conjI)
qed

section \<open>Grayscale\<close>

lemma RGB2GRAY_px_gray: "RGB2GRAY_px (v, v, v) = v"
proof -
  have "9798 * unat v + 19235 * unat v + 3735 * unat v + 16384 = 16384 + unat v * 32768"
    by simp
  then have "(9798 * unat v + 19235 * unat v + 3735 * unat v + 16384) div 32768 = unat v"
    by simp
  then show ?thesis by (simp add: RGB2GRAY_px_def)
qed

lemma RGB2GRAY_GRAY2RGB: "RGB2GRAY (GRAY2RGB g) = g"
  by (simp add: RGB2GRAY_def GRAY2RGB_def RGB2GRAY_px_gray comp_def map_idI)

lemma gray_123: "RGB2GRAY_px (1, 2, 3) = 2"
  by (simp add: RGB2GRAY_px_def)

lemma gray_456: "RGB2GRAY_px (4, 5, 6) = 5"
  by (simp add: RGB2GRAY_px_def)

text \<open>
  C9. On a loaded image the grayscale operator succeeds, and applying it twice in a row
  leaves the same current buffer as applying it once.
\<close>

theorem grayscale_idempotent:
  assumes "current_image s = Some img"
  shows "fst (convert_grayscale s) = Returned True
       \<and> fst (convert_grayscale (snd (convert_grayscale s))) = Returned True
       \<and> current_image (snd (convert_grayscale (snd (convert_grayscale s)))) =
          current_image (snd (convert_grayscale s))"
  using assms by (simp add: convert_grayscale_def Let_def save_to_history_def RGB2GRAY_GRAY2RGB)

theorem grayscale_idempotent_witness:
  "current_image two_pixels = Some [[(1, 2, 3), (4, 5, 6)]]
   \<and> current_image (snd (convert_grayscale two_pixels)) = Some [[(2, 2, 2), (5, 5, 5)]]
   \<and> current_image (snd (convert_grayscale (snd (convert_grayscale two_pixels))))
       = Some [[(2, 2, 2), (5, 5, 5)]]"
proof -
  have c: "current_image two_pixels = Some [[(1, 2, 3), (4, 5, 6)]]"
    by (simp add: two_pixels_def)
  have once: "current_image (snd (convert_grayscale two_pixels)) = Some [[(2, 2, 2), (5, 5, 5)]]"
    by (simp add: convert_grayscale_def two_pixels_def RGB2GRAY_def GRAY2RGB_def gray_123 gray_456)
  from grayscale_idempotent [OF c] once c show ?thesis by simp
qed

section \<open>Rotations and flips\<close>

lemma valid_image_rect: "valid_image img \<Longrightarrow> rect (length img) (length (hd img)) img"
  by (simp add: valid_image_def rect_def)

lemma rect_nth: "rect m n img \<Longrightarrow> i < m \<Longrightarrow> length (img ! i) = n"
  by (simp add: rect_def list_all_length)

lemma transpose_rect:
  assumes "rect m n img"
  shows "transpose img = map (\<lambda>i. map (\<lambda>j. img ! j ! i) [0..<m]) [0..<n]"
proof -
  from assms have "img = [] \<Longrightarrow> n = 0" and "\<And>i. i < length img \<Longrightarrow> length (img ! i) = n"
    and "length img = m"
    by (auto simp add: rect_def list_all_length)
  with transpose_rectangle [of img n] show ?thesis by simp
qed

lemma ccw_rect:
  assumes "rect m n img"
  shows "rect n m (cv2_rotate img ROTATE_90_COUNTERCLOCKWISE)"
  using assms by (auto simp add: transpose_rect [OF assms] cv2_flip_def rect_def list_all_iff)

lemma ccw_nth:
  assumes "rect m n img" and "i < n" and "j < m"
  shows "cv2_rotate img ROTATE_90_COUNTERCLOCKWISE ! i ! j = img ! j ! (n - 1 - i)"
  using assms(2,3) by (simp add: transpose_rect [OF assms(1)] cv2_flip_def rev_nth)

lemma ccw_ccw:
  assumes "rect m n img"
  shows "cv2_rotate (cv2_rotate img ROTATE_90_COUNTERCLOCKWISE) ROTATE_90_COUNTERCLOCKWISE
       = cv2_rotate img ROTATE_180"
    (is "?L = ?R")
proof (rule nth_equalityI)
  note r1 = ccw_rect [OF assms]
  note r2 = ccw_rect [OF r1]
  from r2 assms show len: "length ?L = length ?R"
    by (simp add: rect_def cv2_flip_def)
  fix i assume "i < length ?L"
  with r2 have i: "i < m" by (simp add: rect_def)
  show "?L ! i = ?R ! i"
  proof (rule nth_equalityI)
    from i assms have lenR: "length (?R ! i) = n"
      by (simp add: cv2_flip_def rect_def rev_nth list_all_length)
    from rect_nth [OF r2 i] lenR show "length (?L ! i) = length (?R ! i)" by simp
    fix j assume "j < length (?L ! i)"
    with rect_nth [OF r2 i] have j: "j < n" by simp
    have "?L ! i ! j = cv2_rotate img ROTATE_90_COUNTERCLOCKWISE ! j ! (m - 1 - i)"
      using ccw_nth [OF r1 i j] .
    also have "\<dots> = img ! (m - 1 - i) ! (n - 1 - j)"
      using ccw_nth [OF assms j, of "m - 1 - i"] i by simp
    also have "\<dots> = ?R ! i ! j"
      using i j assms by (simp add: cv2_flip_def rect_def rev_nth list_all_length)
    finally show "?L ! i ! j = ?R ! i ! j" .
  qed
qed

lemma rotate_180_twice: "cv2_rotate (cv2_rotate img ROTATE_180) ROTATE_180 = img"
  by (simp add: cv2_flip_def rev_map comp_def)

lemma flip_twice: "cv2_flip (cv2_flip img c) c = img"
  by (simp add: cv2_flip_def rev_map comp_def)

lemma ccw_four_times:
  assumes "rect m n img"
  shows "cv2_rotate (cv2_rotate (cv2_rotate (cv2_rotate img ROTATE_90_COUNTERCLOCKWISE)
           ROTATE_90_COUNTERCLOCKWISE) ROTATE_90_COUNTERCLOCKWISE) ROTATE_90_COUNTERCLOCKWISE = img"
proof -
  note r2 = ccw_rect [OF ccw_rect [OF assms]]
  show ?thesis
    unfolding ccw_ccw [OF r2] unfolding ccw_ccw [OF assms] by (rule rotate_180_twice)
qed

lemma rotate_image_90:
  "current_image s = Some img \<Longrightarrow>
   rotate_image 90 s = (Returned True,
     (save_to_history s)\<lparr>current_image := Some (cv2_rotate img ROTATE_90_COUNTERCLOCKWISE)\<rparr>)"
  by (simp add: rotate_image_def Let_def)

lemma rotate_image_180:
  "current_image s = Some img \<Longrightarrow>
   rotate_image 180 s = (Returned True,
     (save_to_history s)\<lparr>current_image := Some (cv2_rotate img ROTATE_180)\<rparr>)"
  by (simp add: rotate_image_def Let_def)

lemma flip_image_horizontal:
  "current_image s = Some img \<Longrightarrow>
   flip_image ''horizontal'' s = (Returned True,
     (save_to_history s)\<lparr>current_image := Some (cv2_flip img 1)\<rparr>)"
  by (simp add: flip_image_def Let_def lower_horizontal)

lemma ccw_two_pixels:
  "cv2_rotate [[(1, 2, 3), (4, 5, 6)]] ROTATE_90_COUNTERCLOCKWISE
     = [[(4, 5, 6)], [(1, 2, 3 :: sample)]]"
  by (simp add: cv2_flip_def)

text \<open>
  C7. On a loaded image (rectangular, with at least one row and one column): two
  horizontal flips in a row restore the buffer exactly, and so do four rotations by 90
  and two rotations by 180. The rotation by 90 is counter-clockwise: pixel \<open>j\<close> of the
  new row \<open>i\<close> is the pixel of the old row \<open>j\<close> that is \<open>i\<close> places from the right end.
\<close>

theorem inverse_pairs:
  assumes "current_image s = Some img" and "valid_image img"
  shows "current_image (repeated 2 (flip_image ''horizontal'') s) = Some img
       \<and> current_image (repeated 4 (rotate_image 90) s) = Some img
       \<and> current_image (repeated 2 (rotate_image 180) s) = Some img
       \<and> current_image (snd (rotate_image 90 s))
           = Some (cv2_rotate img ROTATE_90_COUNTERCLOCKWISE)
       \<and> (\<forall>i < length (hd img). \<forall>j < length img.
            cv2_rotate img ROTATE_90_COUNTERCLOCKWISE ! i ! j
              = img ! j ! (length (hd img) - 1 - i))"
proof -
  note r = valid_image_rect [OF assms(2)]
  have flips: "current_image (repeated 2 (flip_image ''horizontal'') s) = Some img"
    using assms(1) by (simp add: eval_nat_numeral flip_image_horizontal flip_twice)
  have quarter: "current_image (repeated 4 (rotate_image 90) s) = Some img"
    using assms(1) by (simp add: eval_nat_numeral rotate_image_90 ccw_four_times [OF r] del: cv2_rotate.simps)
  have half: "current_image (repeated 2 (rotate_image 180) s) = Some img"
    using assms(1)
    by (simp add: eval_nat_numeral rotate_image_180 rotate_180_twice del: cv2_rotate.simps)
  have once: "current_image (snd (rotate_image 90 s))
           = Some (cv2_rotate img ROTATE_90_COUNTERCLOCKWISE)"
    using assms(1) by (simp add: rotate_image_90 del: cv2_rotate.simps)
  have dir: "\<forall>i < length (hd img). \<forall>j < length img.
            cv2_rotate img ROTATE_90_COUNTERCLOCKWISE ! i ! j
              = img ! j ! (length (hd img) - 1 - i)"
    using ccw_nth [OF r] by blast
  from flips quarter half once dir show ?thesis by (intro conjI)
qed


theorem inverse_pairs_witness:
  "current_image two_pixels = Some [[(1, 2, 3), (4, 5, 6)]]
   \<and> valid_image [[(1, 2, 3), (4, 5, 6 :: sample)]]
   \<and> current_image (repeated 2 (flip_image ''horizontal'') two_pixels) = current_image two_pixels
   \<and> current_image (repeated 4 (rotate_image 90) two_pixels) = current_image two_pixels
   \<and> current_image (repeated 2 (rotate_image 180) two_pixels) = current_image two_pixels
   \<and> current_image (snd (rotate_image 90 two_pixels)) = Some [[(4, 5, 6)], [(1, 2, 3)]]"
proof -
  have c: "current_image two_pixels = Some [[(1, 2, 3), (4, 5, 6)]]"
    by (simp add: two_pixels_def)
  have v: "valid_image [[(1, 2, 3), (4, 5, 6 :: sample)]]"
    by (simp add: valid_image_def)
  from inverse_pairs [OF c v] c v show ?thesis
    by (simp only: ccw_two_pixels simp_thms)
qed

section \<open>Where the code departs from the specification\<close>

lemma rotate_image_invalid:
  "current_image s = Some img \<Longrightarrow> angle \<noteq> 90 \<Longrightarrow> angle \<noteq> 180 \<Longrightarrow> angle \<noteq> 270 \<Longrightarrow>
   rotate_image angle s = (Returned False, save_to_history s)"
  by (simp add: rotate_image_def Let_def)

lemma flip_image_invalid:
  "current_image s = Some img \<Longrightarrow> lower direction \<noteq> ''horizontal'' \<Longrightarrow>
   lower direction \<noteq> ''vertical'' \<Longrightarrow>
   flip_image direction s = (Returned False, save_to_history s)"
  by (simp add: flip_image_def Let_def)

text \<open>After a fresh load and one successful edit, whichever it is, \<^verbatim>\<open>undo\<close> returns
  \<^verbatim>\<open>False\<close> and changes nothing.\<close>

lemma undo_after_first_edit:
  assumes "freshly_loaded s" and "apply_edit cv e s = (Returned True, s')"
  shows "undo s' = (Returned False, s')"
proof -
  from apply_edit_tip [OF assms(2) freshly_loaded_ok [OF assms(1)]] assms(1)
  have "history_index s' = 0" by (simp add: freshly_loaded_def)
  then show ?thesis by (simp add: undo_fails)
qed

lemma save_to_history_two_pixels:
  "save_to_history two_pixels
     = two_pixels\<lparr>history := [Some [[(1, 2, 3), (4, 5, 6)]]], history_index := 0\<rparr>"
  by (simp add: save_to_history_def two_pixels_def py_slice_upto_def)

text \<open>
  C1. \<^verbatim>\<open>rotate_image(45)\<close> and \<^verbatim>\<open>flip_image('diagonal')\<close> on a freshly loaded image: both
  return \<^verbatim>\<open>False\<close> and leave the current buffer alone, but only after
  \<^verbatim>\<open>_save_to_history\<close> has run, so the history has grown from no entry to one and the
  cursor has moved from -1 to 0.
\<close>

theorem invalid_parameter_pushes_history:
  "rotate_image 45 two_pixels
     = (Returned False,
        two_pixels\<lparr>history := [Some [[(1, 2, 3), (4, 5, 6)]]], history_index := 0\<rparr>)
   \<and> flip_image ''diagonal'' two_pixels
     = (Returned False,
        two_pixels\<lparr>history := [Some [[(1, 2, 3), (4, 5, 6)]]], history_index := 0\<rparr>)
   \<and> history two_pixels = []
   \<and> history_index two_pixels = -1"
proof -
  have c: "current_image two_pixels = Some [[(1, 2, 3), (4, 5, 6)]]"
    by (simp add: two_pixels_def)
  have "rotate_image 45 two_pixels = (Returned False, save_to_history two_pixels)"
    using c by (simp add: rotate_image_invalid)
  moreover have "flip_image ''diagonal'' two_pixels = (Returned False, save_to_history two_pixels)"
    using c by (simp add: flip_image_invalid lower_diagonal)
  moreover have "history two_pixels = []" and "history_index two_pixels = -1"
    by (simp_all add: two_pixels_def)
  ultimately show ?thesis by (simp add: save_to_history_two_pixels)
qed

text \<open>
  C2. One edit after a fresh load, then \<^verbatim>\<open>undo\<close>: the call returns \<^verbatim>\<open>False\<close> and the
  edited buffer stays. Two edits, then two calls of \<^verbatim>\<open>undo\<close> and two of \<^verbatim>\<open>redo\<close>: the
  buffer ends as it was after the first edit, not as it was after both, since the state
  after the last edit is never put in the history.
\<close>

theorem undo_redo_round_trip_broken:
  "apply_edits plain_cv2 [Flip ''horizontal''] two_pixels
     = Some (two_pixels\<lparr>current_image := Some [[(4, 5, 6), (1, 2, 3)]],
               history := [Some [[(1, 2, 3), (4, 5, 6)]]], history_index := 0\<rparr>)
   \<and> undo (two_pixels\<lparr>current_image := Some [[(4, 5, 6), (1, 2, 3)]],
               history := [Some [[(1, 2, 3), (4, 5, 6)]]], history_index := 0\<rparr>)
     = (Returned False,
        two_pixels\<lparr>current_image := Some [[(4, 5, 6), (1, 2, 3)]],
               history := [Some [[(1, 2, 3), (4, 5, 6)]]], history_index := 0\<rparr>)
   \<and> current_image two_pixels = Some [[(1, 2, 3), (4, 5, 6)]]
   \<and> apply_edits plain_cv2 [Rotate 90, Rotate 90] two_pixels
     = Some (two_pixels\<lparr>current_image := Some [[(4, 5, 6), (1, 2, 3)]],
               history := [Some [[(1, 2, 3), (4, 5, 6)]], Some [[(4, 5, 6)], [(1, 2, 3)]]],
               history_index := 1\<rparr>)
   \<and> current_image (repeated 2 redo (repeated 2 undo
        (two_pixels\<lparr>current_image := Some [[(4, 5, 6), (1, 2, 3)]],
               history := [Some [[(1, 2, 3), (4, 5, 6)]], Some [[(4, 5, 6)], [(1, 2, 3)]]],
               history_index := 1\<rparr>)))
     = Some [[(4, 5, 6)], [(1, 2, 3)]]
   \<and> Some [[(4, 5, 6)], [(1, 2, 3)]] \<noteq> Some [[(4, 5, 6), (1, 2, 3 :: sample)]]"
proof -
  have one: "apply_edits plain_cv2 [Flip ''horizontal''] two_pixels
     = Some (two_pixels\<lparr>current_image := Some [[(4, 5, 6), (1, 2, 3)]],
               history := [Some [[(1, 2, 3), (4, 5, 6)]]], history_index := 0\<rparr>)"
    by (simp add: flip_image_def lower_horizontal save_to_history_def py_slice_upto_def
        cv2_flip_def two_pixels_def)
  have two: "apply_edits plain_cv2 [Rotate 90, Rotate 90] two_pixels
     = Some (two_pixels\<lparr>current_image := Some [[(4, 5, 6), (1, 2, 3)]],
               history := [Some [[(1, 2, 3), (4, 5, 6)]], Some [[(4, 5, 6)], [(1, 2, 3)]]],
               history_index := 1\<rparr>)"
    by (simp add: rotate_image_def save_to_history_def py_slice_upto_def
        cv2_flip_def two_pixels_def)
  have last_state: "current_image (repeated 2 redo (repeated 2 undo
        (two_pixels\<lparr>current_image := Some [[(4, 5, 6), (1, 2, 3)]],
               history := [Some [[(1, 2, 3), (4, 5, 6)]], Some [[(4, 5, 6)], [(1, 2, 3)]]],
               history_index := 1\<rparr>)))
     = Some [[(4, 5, 6)], [(1, 2, 3)]]"
    by (simp add: eval_nat_numeral undo_def redo_def py_index_def)
  have c: "current_image two_pixels = Some [[(1, 2, 3), (4, 5, 6)]]"
    by (simp add: two_pixels_def)
  from one two last_state c show ?thesis by (simp add: undo_fails)
qed

text \<open>
  C3, as the specification states it, fails on \<^verbatim>\<open>resize_image\<close>: with width 0 the call
  raises out of \<^verbatim>\<open>cv2.resize\<close> after the history has grown by one entry.
\<close>

theorem resize_nonpositive_counterexample:
  "resize_image plain_cv2 0 100 two_pixels
     = (Raised Cv2Error,
        two_pixels\<lparr>history := [Some [[(1, 2, 3), (4, 5, 6)]]], history_index := 0\<rparr>)
   \<and> length (history (snd (resize_image plain_cv2 0 100 two_pixels)))
       \<noteq> length (history two_pixels)"
  by (simp add: resize_image_def plain_cv2_def save_to_history_def py_slice_upto_def
      two_pixels_def)

text \<open>
  C3, amended. A request to resize to a width or height of 0 or less is refused by the
  resize dialog as invalid input before the session is called: the session, with its
  current buffer and its history, is unchanged. The dialog refuses nothing else: with
  both sizes positive it hands the request to \<^verbatim>\<open>resize_image\<close>.
\<close>

theorem resize_nonpositive:
  "(width \<le> 0 \<or> height \<le> 0 \<longrightarrow> apply_resize cv width height s = (Invalid_input, s))
   \<and> (fst (apply_resize cv width height s) = Invalid_input \<longleftrightarrow> width \<le> 0 \<or> height \<le> 0)
   \<and> (0 < width \<and> 0 < height \<longrightarrow>
        snd (apply_resize cv width height s) = snd (resize_image cv width height s))"
proof (cases "0 < width \<and> 0 < height")
  case True
  obtain r s' where call: "resize_image cv width height s = (r, s')"
    by (cases "resize_image cv width height s")
  from True call show ?thesis
    by (cases r) (auto simp add: apply_resize_def split: bool.splits)
next
  case False
  then show ?thesis by (auto simp add: apply_resize_def)
qed

theorem resize_nonpositive_witness:
  "((0::int) \<le> 0 \<or> (100::int) \<le> 0)
   \<and> apply_resize plain_cv2 0 100 two_pixels = (Invalid_input, two_pixels)
   \<and> (0::int) < 3 \<and> (0::int) < 1
   \<and> fst (apply_resize plain_cv2 3 1 two_pixels) \<noteq> Invalid_input
   \<and> snd (apply_resize plain_cv2 3 1 two_pixels) = snd (resize_image plain_cv2 3 1 two_pixels)"
proof -
  have h: "(0::int) \<le> 0 \<or> (100::int) \<le> 0" by simp
  have p: "(0::int) < 3 \<and> (0::int) < 1" by simp
  from resize_nonpositive [of 0 100 plain_cv2 two_pixels]
    resize_nonpositive [of 3 1 plain_cv2 two_pixels] h p
  show ?thesis by simp
qed

end
